theory Spec2Isabelle
  imports Main "HOL-Library.Word"
begin

section \<open>The pairs-trading auto-trader of \<^verbatim>\<open>meanRev2.py\<close>\<close>

text \<open>
  The class \<^verbatim>\<open>AutoTrader\<close> is embedded with explicit state passing: its fields are a
  record, every handler takes the state and gives the state it leaves behind, the two
  outbound calls (\<^verbatim>\<open>send_insert_order\<close>, \<^verbatim>\<open>send_hedge_order\<close>) are values of a
  datatype collected in the order in which the handler makes them, and the exceptions
  Python raises (\<^verbatim>\<open>IndexError\<close> on an empty ladder, \<^verbatim>\<open>UnicodeDecodeError\<close> on the bytes
  of an error message) are values of a sum type. Python's integers are unbounded, so
  they are \<open>int\<close>. Logging is not part of the state and is left out.
\<close>

subsection \<open>Data\<close>

text \<open>
  The enumerations \<^verbatim>\<open>Side\<close> and \<^verbatim>\<open>Lifespan\<close> are imported from the package
  \<^verbatim>\<open>ready_trader_go\<close>; the handlers only build their members and compare them for
  equality. \<^verbatim>\<open>Lifespan.F\<close> is the lifespan the specification calls fill-or-kill.
\<close>

datatype Side = Side_ASK | Side_BID

datatype Lifespan = Lifespan_F | Lifespan_G

datatype py_error = IndexError | UnicodeDecodeError

text \<open>A ladder is a tuple of (price, volume) pairs, best level first.\<close>

type_synonym ladder = "(int \<times> int) list"

text \<open>
  The outbound calls of a handler:
  \<^verbatim>\<open>send_insert_order(client_order_id, side, price, volume, lifespan)\<close> and
  \<^verbatim>\<open>send_hedge_order(client_order_id, side, price, volume)\<close>.
\<close>

datatype message =
    send_insert_order int Side int int Lifespan
  | send_hedge_order int Side int int

text \<open>
  The fields set by \<^verbatim>\<open>__init__\<close>. \<open>order_ids\<close> is \<^verbatim>\<open>itertools.count(1)\<close>, held as
  the number the next call of \<^verbatim>\<open>next\<close> returns.
\<close>

record autotrader =
  order_ids :: int
  bids :: "int set"
  asks :: "int set"
  ask_id :: int
  ask_price :: int
  bid_id :: int
  bid_price :: int
  position :: int
  lastEtfBids :: ladder
  lastEtfAsks :: ladder
  lastFutureBids :: ladder
  lastFutureAsks :: ladder

definition AutoTrader_init :: autotrader where
  "AutoTrader_init =
     \<lparr> order_ids = 1, bids = {}, asks = {},
       ask_id = 0, ask_price = 0, bid_id = 0, bid_price = 0, position = 0,
       lastEtfBids = [(0, 0), (0, 0)], lastEtfAsks = [(0, 0), (0, 0)],
       lastFutureBids = [(0, 0), (0, 0)], lastFutureAsks = [(0, 0), (0, 0)] \<rparr>"

subsection \<open>The scanner: \<^verbatim>\<open>get_max_possible_trade\<close>\<close>

text \<open>
  The two nested \<^verbatim>\<open>for\<close> loops carry the triple
  \<open>(max_volume, etf_price, fut_price)\<close>. In the first branch the outer loop runs over
  the ETF asks and the inner one over the future bids; a qualifying pair adds
  \<open>min\<close> of the two volumes and overwrites both prices.
\<close>

fun buy_inner :: "int \<times> int \<Rightarrow> ladder \<Rightarrow> int \<times> int \<times> int \<Rightarrow> int \<times> int \<times> int" where
  "buy_inner ask [] acc = acc"
| "buy_inner ask (bid # rest) (max_volume, etf_price, fut_price) =
     buy_inner ask rest
       (if fst ask < fst bid
        then (max_volume + min (snd ask) (snd bid), fst ask, fst bid)
        else (max_volume, etf_price, fut_price))"

fun buy_outer :: "ladder \<Rightarrow> ladder \<Rightarrow> int \<times> int \<times> int \<Rightarrow> int \<times> int \<times> int" where
  "buy_outer [] fut_bids acc = acc"
| "buy_outer (ask # rest) fut_bids acc = buy_outer rest fut_bids (buy_inner ask fut_bids acc)"

text \<open>
  In the second branch the outer loop runs over the future asks and the inner one over
  the ETF bids; a qualifying pair sets \<open>etf_price\<close> to the bid's price and
  \<open>fut_price\<close> to the ask's.
\<close>

fun sell_inner :: "int \<times> int \<Rightarrow> ladder \<Rightarrow> int \<times> int \<times> int \<Rightarrow> int \<times> int \<times> int" where
  "sell_inner ask [] acc = acc"
| "sell_inner ask (bid # rest) (max_volume, etf_price, fut_price) =
     sell_inner ask rest
       (if fst ask < fst bid
        then (max_volume + min (snd ask) (snd bid), fst bid, fst ask)
        else (max_volume, etf_price, fut_price))"

fun sell_outer :: "ladder \<Rightarrow> ladder \<Rightarrow> int \<times> int \<times> int \<Rightarrow> int \<times> int \<times> int" where
  "sell_outer [] etf_bids acc = acc"
| "sell_outer (ask # rest) etf_bids acc = sell_outer rest etf_bids (sell_inner ask etf_bids acc)"

text \<open>
  The result is \<open>(etf_price, max_volume, side, fut_price)\<close>. Reading index 0 of an
  empty tuple raises \<^verbatim>\<open>IndexError\<close>; the second comparison is only evaluated when the
  first one is false.
\<close>

definition get_max_possible_trade :: "autotrader \<Rightarrow> py_error + (int \<times> int \<times> Side \<times> int)" where
  "get_max_possible_trade s =
     (case lastEtfAsks s of
        [] \<Rightarrow> Inl IndexError
      | ea # _ \<Rightarrow>
         (case lastFutureBids s of
            [] \<Rightarrow> Inl IndexError
          | fb # _ \<Rightarrow>
             (if fst ea < fst fb
              then (case buy_outer (lastEtfAsks s) (lastFutureBids s) (0, 0, 0) of
                      (max_volume, etf_price, fut_price) \<Rightarrow>
                        Inr (etf_price, max_volume, Side_BID, fut_price))
              else
                (case lastEtfBids s of
                   [] \<Rightarrow> Inl IndexError
                 | eb # _ \<Rightarrow>
                    (case lastFutureAsks s of
                       [] \<Rightarrow> Inl IndexError
                     | fa # _ \<Rightarrow>
                        (if fst eb > fst fa
                         then (case sell_outer (lastFutureAsks s) (lastEtfBids s) (0, 0, 0) of
                                 (max_volume, etf_price, fut_price) \<Rightarrow>
                                   Inr (etf_price, max_volume, Side_ASK, fut_price))
                         else Inr (0, 0, Side_BID, 0)))))))"

subsection \<open>The handlers\<close>

text \<open>
  \<^verbatim>\<open>on_order_status_message\<close>: with no remaining volume the matching resting slot is
  cleared (the bid slot is tested first, the ask slot only when the bid slot did not
  match) and the id is discarded from both working sets.
\<close>

definition on_order_status_message :: "autotrader \<Rightarrow> int \<Rightarrow> int \<Rightarrow> int \<Rightarrow> int \<Rightarrow> autotrader" where
  "on_order_status_message s client_order_id fill_volume remaining_volume fees =
     (if remaining_volume = 0
      then
        (let s1 = (if client_order_id = bid_id s then s\<lparr>bid_id := 0\<rparr>
                   else if client_order_id = ask_id s then s\<lparr>ask_id := 0\<rparr>
                   else s)
         in s1\<lparr>bids := bids s1 - {client_order_id}, asks := asks s1 - {client_order_id}\<rparr>)
      else s)"

text \<open>\<^verbatim>\<open>on_order_filled_message\<close>: the position moves only for an id of a working set.\<close>

definition on_order_filled_message :: "autotrader \<Rightarrow> int \<Rightarrow> int \<Rightarrow> int \<Rightarrow> autotrader" where
  "on_order_filled_message s client_order_id price volume =
     (if client_order_id \<in> bids s then s\<lparr>position := position s + volume\<rparr>
      else if client_order_id \<in> asks s then s\<lparr>position := position s - volume\<rparr>
      else s)"

text \<open>
  \<^verbatim>\<open>error_message.decode()\<close> decodes the bytes as strict UTF-8 and raises
  \<^verbatim>\<open>UnicodeDecodeError\<close> on an ill-formed sequence. \<open>decodes\<close> says whether the bytes are
  well-formed UTF-8: no overlong form, no surrogate, nothing above U+10FFFF, no
  truncated sequence.
\<close>

definition cont :: "8 word \<Rightarrow> bool" where
  "cont b = (0x80 \<le> b \<and> b \<le> 0xBF)"

fun decodes :: "8 word list \<Rightarrow> bool" where
  "decodes [] = True"
| "decodes [b] = (b < 0x80)"
| "decodes [b, c1] = (if b < 0x80 then decodes [c1] else 0xC2 \<le> b \<and> b \<le> 0xDF \<and> cont c1)"
| "decodes [b, c1, c2] =
     (if b < 0x80 then decodes [c1, c2]
      else if 0xC2 \<le> b \<and> b \<le> 0xDF then cont c1 \<and> decodes [c2]
      else if b = 0xE0 then 0xA0 \<le> c1 \<and> c1 \<le> 0xBF \<and> cont c2
      else if b = 0xED then 0x80 \<le> c1 \<and> c1 \<le> 0x9F \<and> cont c2
      else 0xE1 \<le> b \<and> b \<le> 0xEF \<and> cont c1 \<and> cont c2)"
| "decodes (b # c1 # c2 # c3 # rest) =
     (if b < 0x80 then decodes (c1 # c2 # c3 # rest)
      else if 0xC2 \<le> b \<and> b \<le> 0xDF then cont c1 \<and> decodes (c2 # c3 # rest)
      else if b = 0xE0 then 0xA0 \<le> c1 \<and> c1 \<le> 0xBF \<and> cont c2 \<and> decodes (c3 # rest)
      else if b = 0xED then 0x80 \<le> c1 \<and> c1 \<le> 0x9F \<and> cont c2 \<and> decodes (c3 # rest)
      else if 0xE1 \<le> b \<and> b \<le> 0xEF then cont c1 \<and> cont c2 \<and> decodes (c3 # rest)
      else if b = 0xF0 then 0x90 \<le> c1 \<and> c1 \<le> 0xBF \<and> cont c2 \<and> cont c3 \<and> decodes rest
      else if b = 0xF4 then 0x80 \<le> c1 \<and> c1 \<le> 0x8F \<and> cont c2 \<and> cont c3 \<and> decodes rest
      else 0xF1 \<le> b \<and> b \<le> 0xF3 \<and> cont c1 \<and> cont c2 \<and> cont c3 \<and> decodes rest)"

text \<open>
  \<^verbatim>\<open>on_error_message\<close>: the message is decoded for the log line before anything else,
  so an undecodable message raises with the state untouched; otherwise an id that is
  not 0 and is in a working set is handled as a status message with no remaining
  volume.
\<close>

definition on_error_message :: "autotrader \<Rightarrow> int \<Rightarrow> 8 word list \<Rightarrow> py_error + autotrader" where
  "on_error_message s client_order_id error_message =
     (if \<not> decodes error_message then Inl UnicodeDecodeError
      else if client_order_id \<noteq> 0 \<and> (client_order_id \<in> bids s \<or> client_order_id \<in> asks s)
      then Inr (on_order_status_message s client_order_id 0 0 0)
      else Inr s)"

text \<open>\<^verbatim>\<open>on_hedge_filled_message\<close> and \<^verbatim>\<open>on_trade_ticks_message\<close> only write a log line.\<close>

definition on_hedge_filled_message :: "autotrader \<Rightarrow> int \<Rightarrow> int \<Rightarrow> int \<Rightarrow> autotrader" where
  "on_hedge_filled_message s client_order_id price volume = s"

definition on_trade_ticks_message ::
  "autotrader \<Rightarrow> int \<Rightarrow> int \<Rightarrow> int list \<Rightarrow> int list \<Rightarrow> int list \<Rightarrow> int list \<Rightarrow> autotrader" where
  "on_trade_ticks_message s instrument sequence_number ask_prices ask_volumes bid_prices bid_volumes = s"

text \<open>
  The first half of \<^verbatim>\<open>on_order_book_update_message\<close>: the two ladders of the
  instrument are overwritten with \<^verbatim>\<open>tuple(zip(prices, volumes))\<close>; \<^verbatim>\<open>zip\<close> stops at the
  shorter list. \<^verbatim>\<open>Instrument.ETF\<close> is a constant of \<^verbatim>\<open>ready_trader_go\<close>; its value is
  the parameter \<open>ETF\<close>.
\<close>

definition store_ladders ::
  "int \<Rightarrow> autotrader \<Rightarrow> int \<Rightarrow> int list \<Rightarrow> int list \<Rightarrow> int list \<Rightarrow> int list \<Rightarrow> autotrader" where
  "store_ladders ETF s instrument ask_prices ask_volumes bid_prices bid_volumes =
     (if instrument = ETF
      then s\<lparr>lastEtfBids := zip bid_prices bid_volumes, lastEtfAsks := zip ask_prices ask_volumes\<rparr>
      else s\<lparr>lastFutureBids := zip bid_prices bid_volumes,
             lastFutureAsks := zip ask_prices ask_volumes\<rparr>)"

text \<open>
  The second half: the scanner runs on the stored ladders, and a result with a price
  and a volume other than 0 sets the resting slot of its side, takes two ids from the
  counter and makes the two outbound calls. An exception of the scanner leaves the
  state with the ladders already overwritten.
\<close>

definition place_orders :: "autotrader \<Rightarrow> int \<times> int \<times> Side \<times> int \<Rightarrow> message list \<times> autotrader" where
  "place_orders s r =
     (case r of (etf_price, volume, side, fut_price) \<Rightarrow>
        if etf_price \<noteq> 0 \<and> volume \<noteq> 0
        then
          (if side = Side_ASK
           then ([send_insert_order (order_ids s) side etf_price volume Lifespan_F,
                  send_hedge_order (order_ids s + 1) Side_BID fut_price volume],
                 s\<lparr>ask_price := etf_price, ask_id := order_ids s, order_ids := order_ids s + 2\<rparr>)
           else ([send_insert_order (order_ids s) side etf_price volume Lifespan_F,
                  send_hedge_order (order_ids s + 1) Side_ASK fut_price volume],
                 s\<lparr>bid_price := etf_price, bid_id := order_ids s, order_ids := order_ids s + 2\<rparr>))
        else ([], s))"

definition on_order_book_update_message ::
  "int \<Rightarrow> autotrader \<Rightarrow> int \<Rightarrow> int \<Rightarrow> int list \<Rightarrow> int list \<Rightarrow> int list \<Rightarrow> int list
     \<Rightarrow> (py_error \<times> autotrader) + (message list \<times> autotrader)" where
  "on_order_book_update_message ETF s instrument sequence_number
       ask_prices ask_volumes bid_prices bid_volumes =
     (let s1 = store_ladders ETF s instrument ask_prices ask_volumes bid_prices bid_volumes
      in case get_max_possible_trade s1 of
           Inl e \<Rightarrow> Inl (e, s1)
         | Inr r \<Rightarrow> Inr (place_orders s1 r))"

subsection \<open>Runs of the trader\<close>

text \<open>
  One inbound event per handler. \<open>handle\<close> gives the state a handler leaves behind,
  whether it returns or raises; \<open>run\<close> is the state after a sequence of events on a
  fresh trader, so the reachable states are the values of \<open>run\<close>.
\<close>

datatype event =
    Error_message int "8 word list"
  | Hedge_filled int int int
  | Order_book_update int int "int list" "int list" "int list" "int list"
  | Order_filled int int int
  | Order_status int int int int
  | Trade_ticks int int "int list" "int list" "int list" "int list"

fun handle :: "int \<Rightarrow> autotrader \<Rightarrow> event \<Rightarrow> autotrader" where
  "handle ETF s (Error_message i m) =
     (case on_error_message s i m of Inl e \<Rightarrow> s | Inr s' \<Rightarrow> s')"
| "handle ETF s (Hedge_filled i p v) = on_hedge_filled_message s i p v"
| "handle ETF s (Order_book_update inst sq ap av bp bv) =
     (case on_order_book_update_message ETF s inst sq ap av bp bv of
        Inl (e, s') \<Rightarrow> s' | Inr (out, s') \<Rightarrow> s')"
| "handle ETF s (Order_filled i p v) = on_order_filled_message s i p v"
| "handle ETF s (Order_status i f r c) = on_order_status_message s i f r c"
| "handle ETF s (Trade_ticks inst sq ap av bp bv) = on_trade_ticks_message s inst sq ap av bp bv"

definition run :: "int \<Rightarrow> event list \<Rightarrow> autotrader" where
  "run ETF evs = foldl (handle ETF) AutoTrader_init evs"

text \<open>
  The facts about the ledger that hold after every run: the working sets are empty, the
  position is 0, and both resting slots hold 0 or an id the counter has already given
  out, never the same one.
\<close>

definition ledger_inv :: "autotrader \<Rightarrow> bool" where
  "ledger_inv s =
     (bids s = {} \<and> asks s = {} \<and> position s = 0 \<and> 1 \<le> order_ids s \<and>
      0 \<le> bid_id s \<and> bid_id s < order_ids s \<and> 0 \<le> ask_id s \<and> ask_id s < order_ids s \<and>
      (bid_id s = ask_id s \<longrightarrow> bid_id s = 0))"

section \<open>Properties\<close>

subsection \<open>What each handler leaves alone\<close>

lemma store_ladders_frame [simp]:
  "position (store_ladders ETF s inst ap av bp bv) = position s"
  "bids (store_ladders ETF s inst ap av bp bv) = bids s"
  "asks (store_ladders ETF s inst ap av bp bv) = asks s"
  "bid_id (store_ladders ETF s inst ap av bp bv) = bid_id s"
  "ask_id (store_ladders ETF s inst ap av bp bv) = ask_id s"
  "order_ids (store_ladders ETF s inst ap av bp bv) = order_ids s"
  by (simp_all add: store_ladders_def)

lemma place_orders_frame [simp]:
  "position (snd (place_orders s r)) = position s"
  "bids (snd (place_orders s r)) = bids s"
  "asks (snd (place_orders s r)) = asks s"
  "lastEtfAsks (snd (place_orders s r)) = lastEtfAsks s"
  "lastEtfBids (snd (place_orders s r)) = lastEtfBids s"
  "lastFutureAsks (snd (place_orders s r)) = lastFutureAsks s"
  "lastFutureBids (snd (place_orders s r)) = lastFutureBids s"
  by (simp_all add: place_orders_def split: prod.splits)

lemma handle_book_update:
  "handle ETF s (Order_book_update inst sq ap av bp bv) =
     (case get_max_possible_trade (store_ladders ETF s inst ap av bp bv) of
        Inl e \<Rightarrow> store_ladders ETF s inst ap av bp bv
      | Inr r \<Rightarrow> snd (place_orders (store_ladders ETF s inst ap av bp bv) r))"
  by (simp add: on_order_book_update_message_def Let_def split: sum.splits prod.splits)

declare handle.simps(3) [simp del]

lemma book_update_frame:
  "position (handle ETF s (Order_book_update inst sq ap av bp bv)) = position s"
  "bids (handle ETF s (Order_book_update inst sq ap av bp bv)) = bids s"
  "asks (handle ETF s (Order_book_update inst sq ap av bp bv)) = asks s"
  by (simp_all add: handle_book_update split: sum.splits)

lemma book_update_ladders:
  "lastEtfAsks (handle ETF s (Order_book_update inst sq ap av bp bv)) =
     (if inst = ETF then zip ap av else lastEtfAsks s)"
  "lastEtfBids (handle ETF s (Order_book_update inst sq ap av bp bv)) =
     (if inst = ETF then zip bp bv else lastEtfBids s)"
  "lastFutureAsks (handle ETF s (Order_book_update inst sq ap av bp bv)) =
     (if inst = ETF then lastFutureAsks s else zip ap av)"
  "lastFutureBids (handle ETF s (Order_book_update inst sq ap av bp bv)) =
     (if inst = ETF then lastFutureBids s else zip bp bv)"
  by (simp_all add: handle_book_update store_ladders_def split: sum.splits)

lemma status_frame:
  "position (on_order_status_message s i f r c) = position s"
  "bids (on_order_status_message s i f r c) \<subseteq> bids s"
  "asks (on_order_status_message s i f r c) \<subseteq> asks s"
  "order_ids (on_order_status_message s i f r c) = order_ids s"
  by (auto simp: on_order_status_message_def Let_def)

lemma error_frame:
  "position (handle ETF s (Error_message i m)) = position s"
  "bids (handle ETF s (Error_message i m)) \<subseteq> bids s"
  "asks (handle ETF s (Error_message i m)) \<subseteq> asks s"
  using status_frame [of s i 0 0 0] by (auto simp: on_error_message_def)

lemma filled_frame:
  "bids (on_order_filled_message s i p v) = bids s"
  "asks (on_order_filled_message s i p v) = asks s"
  "bid_id (on_order_filled_message s i p v) = bid_id s"
  "ask_id (on_order_filled_message s i p v) = ask_id s"
  "order_ids (on_order_filled_message s i p v) = order_ids s"
  by (simp_all add: on_order_filled_message_def)

lemma handle_working_sets:
  "bids (handle ETF s e) \<subseteq> bids s \<and> asks (handle ETF s e) \<subseteq> asks s"
proof (cases e)
  case (Error_message i m)
  then show ?thesis using error_frame [of ETF s i m] by simp
next
  case (Order_book_update inst sq ap av bp bv)
  then show ?thesis using book_update_frame [of ETF s inst sq ap av bp bv] by simp
next
  case (Order_status i f r c)
  then show ?thesis using status_frame [of s i f r c] by simp
qed (simp_all add: filled_frame on_hedge_filled_message_def on_trade_ticks_message_def)

subsection \<open>The ledger after a run\<close>

lemma place_orders_inv:
  assumes "ledger_inv s"
  shows "ledger_inv (snd (place_orders s r))"
proof -
  obtain p v sd q where r: "r = (p, v, sd, q)" by (cases r)
  show ?thesis using assms by (auto simp: ledger_inv_def place_orders_def r)
qed

lemma store_ladders_inv: "ledger_inv s \<Longrightarrow> ledger_inv (store_ladders ETF s inst ap av bp bv)"
  by (simp add: ledger_inv_def)

lemma status_inv: "ledger_inv s \<Longrightarrow> ledger_inv (on_order_status_message s i f r c)"
  by (auto simp: ledger_inv_def on_order_status_message_def Let_def)

lemma filled_inv: "ledger_inv s \<Longrightarrow> ledger_inv (on_order_filled_message s i p v)"
  by (simp add: ledger_inv_def on_order_filled_message_def)

lemma handle_inv:
  assumes "ledger_inv s"
  shows "ledger_inv (handle ETF s e)"
proof (cases e)
  case (Error_message i m)
  then show ?thesis using assms status_inv [of s i 0 0 0]
    by (simp add: on_error_message_def)
next
  case (Hedge_filled i p v)
  then show ?thesis using assms by (simp add: on_hedge_filled_message_def)
next
  case (Order_book_update inst sq ap av bp bv)
  then show ?thesis
    using store_ladders_inv [OF assms, of ETF inst ap av bp bv]
    by (simp add: handle_book_update place_orders_inv split: sum.splits)
next
  case (Order_filled i p v)
  then show ?thesis using assms by (simp add: filled_inv)
next
  case (Order_status i f r c)
  then show ?thesis using assms by (simp add: status_inv)
next
  case (Trade_ticks inst sq ap av bp bv)
  then show ?thesis using assms by (simp add: on_trade_ticks_message_def)
qed

lemma init_inv: "ledger_inv AutoTrader_init"
  by (simp add: ledger_inv_def AutoTrader_init_def)

lemma run_inv: "ledger_inv (run ETF evs)"
proof (induction evs rule: rev_induct)
  case Nil
  then show ?case by (simp add: run_def init_inv)
next
  case (snoc e evs)
  then show ?case by (simp add: run_def handle_inv)
qed

subsection \<open>The volume the scanner accumulates\<close>



lemma book_update_slots:
  assumes "ledger_inv s"
  shows "bid_id s \<noteq> 0 \<longrightarrow> bid_id (handle ETF s (Order_book_update inst sq ap av bp bv)) \<noteq> 0"
    and "ask_id s \<noteq> 0 \<longrightarrow> ask_id (handle ETF s (Order_book_update inst sq ap av bp bv)) \<noteq> 0"
  using assms
  by (auto simp: handle_book_update ledger_inv_def place_orders_def split: sum.splits prod.splits)

lemma status_twice_same:
  assumes "bid_id s \<noteq> ask_id s \<or> i \<noteq> bid_id s \<or> i = 0"
  shows "on_order_status_message (on_order_status_message s i f 0 c) i f' 0 c'
           = on_order_status_message s i f 0 c"
  using assms by (auto simp: on_order_status_message_def Let_def)

lemma run_slots_distinct: "bid_id (run ETF evs) \<noteq> ask_id (run ETF evs) \<or> bid_id (run ETF evs) = 0"
  using run_inv [of ETF evs] by (auto simp: ledger_inv_def)

lemma run_counter_positive: "1 \<le> order_ids (run ETF evs)"
  using run_inv [of ETF evs] by (simp add: ledger_inv_def)

section \<open>The claims\<close>

subsection \<open>C1: a triggered order is not entered in its working set\<close>

text \<open>
  C1 says that the id of the resting order sent for a BID-side opportunity is recorded
  in the BID working set, so that a fill of that id with volume \<open>v\<close> raises the position
  by \<open>v\<close>. The handler sets the resting slot and sends the two orders but never adds
  the id to \<open>bids\<close>. Here a fresh trader receives a future book and then an ETF book whose
  asks lie below the future bids: order 1 is sent on the BID side for 75 lots, 1 is not
  in \<open>bids\<close> afterwards, and the fill of order 1 for 75 lots leaves the position at 0.
\<close>

theorem triggered_bid_not_registered:
  "on_order_book_update_message 1
     (run 1 [Order_book_update 0 1 [300, 301, 302, 303, 304] [1, 1, 1, 1, 1]
                                   [200, 199, 198, 197, 196] [3, 3, 3, 3, 3]])
     1 2 [100, 101, 102, 103, 104] [5, 5, 5, 5, 5] [90, 89, 88, 87, 86] [5, 5, 5, 5, 5]
   = Inr ([send_insert_order 1 Side_BID 104 75 Lifespan_F, send_hedge_order 2 Side_ASK 196 75],
          AutoTrader_init
            \<lparr>lastFutureBids := [(200, 3), (199, 3), (198, 3), (197, 3), (196, 3)],
             lastFutureAsks := [(300, 1), (301, 1), (302, 1), (303, 1), (304, 1)],
             lastEtfBids := [(90, 5), (89, 5), (88, 5), (87, 5), (86, 5)],
             lastEtfAsks := [(100, 5), (101, 5), (102, 5), (103, 5), (104, 5)],
             bid_price := 104, bid_id := 1, order_ids := 3\<rparr>)
   \<and> 1 \<notin> bids (run 1 [Order_book_update 0 1 [300, 301, 302, 303, 304] [1, 1, 1, 1, 1]
                                           [200, 199, 198, 197, 196] [3, 3, 3, 3, 3],
                        Order_book_update 1 2 [100, 101, 102, 103, 104] [5, 5, 5, 5, 5]
                                           [90, 89, 88, 87, 86] [5, 5, 5, 5, 5]])
   \<and> position (run 1 [Order_book_update 0 1 [300, 301, 302, 303, 304] [1, 1, 1, 1, 1]
                                           [200, 199, 198, 197, 196] [3, 3, 3, 3, 3],
                        Order_book_update 1 2 [100, 101, 102, 103, 104] [5, 5, 5, 5, 5]
                                           [90, 89, 88, 87, 86] [5, 5, 5, 5, 5],
                        Order_filled 1 104 75]) = 0"
  by (simp add: run_def handle_book_update on_order_book_update_message_def store_ladders_def
      get_max_possible_trade_def place_orders_def AutoTrader_init_def
      on_order_filled_message_def)

subsection \<open>C2: sentinel levels in the scanner\<close>

text \<open>
  C2 says that with the ETF asks \<open>[(100,5)]\<close> and the future bids \<open>[(200,3)]\<close>, every
  other level being the sentinel \<open>(0,0)\<close>, the scanner returns price 100, volume 3,
  side BID and hedge price 200, the sentinels having no effect. The loops treat the
  sentinel asks as levels of price 0: each is below the bid 200, adds \<open>min 0 3 = 0\<close> and
  overwrites the price. After the two five-level books below the scanner returns
  price 0, volume 3, side BID and hedge price 200, and the update that stored the
  future book sends no order.
\<close>

theorem sentinel_ask_overwrites_price:
  "get_max_possible_trade
     (run 1 [Order_book_update 1 1 [100, 0, 0, 0, 0] [5, 0, 0, 0, 0] [0, 0, 0, 0, 0] [0, 0, 0, 0, 0],
             Order_book_update 0 2 [0, 0, 0, 0, 0] [0, 0, 0, 0, 0] [200, 0, 0, 0, 0] [3, 0, 0, 0, 0]])
   = Inr (0, 3, Side_BID, 200)
   \<and> lastEtfAsks
       (run 1 [Order_book_update 1 1 [100, 0, 0, 0, 0] [5, 0, 0, 0, 0] [0, 0, 0, 0, 0] [0, 0, 0, 0, 0],
               Order_book_update 0 2 [0, 0, 0, 0, 0] [0, 0, 0, 0, 0] [200, 0, 0, 0, 0] [3, 0, 0, 0, 0]])
     = [(100, 5), (0, 0), (0, 0), (0, 0), (0, 0)]
   \<and> lastFutureBids
       (run 1 [Order_book_update 1 1 [100, 0, 0, 0, 0] [5, 0, 0, 0, 0] [0, 0, 0, 0, 0] [0, 0, 0, 0, 0],
               Order_book_update 0 2 [0, 0, 0, 0, 0] [0, 0, 0, 0, 0] [200, 0, 0, 0, 0] [3, 0, 0, 0, 0]])
     = [(200, 3), (0, 0), (0, 0), (0, 0), (0, 0)]
   \<and> on_order_book_update_message 1
       (run 1 [Order_book_update 1 1 [100, 0, 0, 0, 0] [5, 0, 0, 0, 0] [0, 0, 0, 0, 0] [0, 0, 0, 0, 0]])
       0 2 [0, 0, 0, 0, 0] [0, 0, 0, 0, 0] [200, 0, 0, 0, 0] [3, 0, 0, 0, 0]
     = Inr ([],
         run 1 [Order_book_update 1 1 [100, 0, 0, 0, 0] [5, 0, 0, 0, 0] [0, 0, 0, 0, 0] [0, 0, 0, 0, 0],
                Order_book_update 0 2 [0, 0, 0, 0, 0] [0, 0, 0, 0, 0] [200, 0, 0, 0, 0] [3, 0, 0, 0, 0]])"
  by (simp add: run_def handle_book_update on_order_book_update_message_def store_ladders_def
      get_max_possible_trade_def place_orders_def AutoTrader_init_def)

subsection \<open>C3: a book update overwrites the ladders of its instrument\<close>

text \<open>
  C3 as stated says that the stored ladders of the updated instrument are replaced
  wholesale and that a ladder shorter than 5 levels is padded with \<open>(0,0)\<close> up to exactly
  5 entries. The handler stores \<^verbatim>\<open>tuple(zip(prices, volumes))\<close> and pads nothing: on
  a fresh trader an ETF book with one ask level and one bid level is stored with one
  entry each.
\<close>

theorem short_ladder_not_padded:
  "on_order_book_update_message 1 AutoTrader_init 1 1 [100] [5] [90] [5]
     = Inr ([], AutoTrader_init\<lparr>lastEtfBids := [(90, 5)], lastEtfAsks := [(100, 5)]\<rparr>)
   \<and> length (lastEtfAsks (AutoTrader_init\<lparr>lastEtfBids := [(90, 5)], lastEtfAsks := [(100, 5)]\<rparr>)) \<noteq> 5"
  by (simp add: on_order_book_update_message_def store_ladders_def
      get_max_possible_trade_def place_orders_def AutoTrader_init_def)

text \<open>
  C3 as amended: for every call of the book-update handler, whether it returns or
  raises, the stored bid and ask ladders of the updated instrument are replaced
  wholesale by the pairs of the given prices and volumes and the ladders of the other
  instrument are unchanged; a stored ladder has as many entries as the shorter of its
  price list and its volume list, so 5 when both have 5, and nothing is padded.
\<close>

theorem book_update_replaces_ladders:
  assumes "s' = handle ETF s (Order_book_update inst sq ap av bp bv)"
  shows "(inst = ETF \<longrightarrow>
            lastEtfAsks s' = zip ap av \<and> lastEtfBids s' = zip bp bv \<and>
            lastFutureAsks s' = lastFutureAsks s \<and> lastFutureBids s' = lastFutureBids s) \<and>
         (inst \<noteq> ETF \<longrightarrow>
            lastFutureAsks s' = zip ap av \<and> lastFutureBids s' = zip bp bv \<and>
            lastEtfAsks s' = lastEtfAsks s \<and> lastEtfBids s' = lastEtfBids s) \<and>
         length (zip ap av) = min (length ap) (length av) \<and>
         length (zip bp bv) = min (length bp) (length bv)"
  using assms by (simp add: book_update_ladders)

text \<open>
  Witness for C3 as amended: a five-level ETF book on a fresh trader; the stored
  ladders have 5 entries and the future ladders are the initial ones.
\<close>

theorem book_update_replaces_ladders_witness:
  "lastEtfAsks (handle 1 AutoTrader_init
      (Order_book_update 1 1 [100, 101, 102, 103, 104] [5, 5, 5, 5, 5]
                             [90, 89, 88, 87, 86] [4, 4, 4, 4, 4]))
     = [(100, 5), (101, 5), (102, 5), (103, 5), (104, 5)]
   \<and> lastEtfBids (handle 1 AutoTrader_init
      (Order_book_update 1 1 [100, 101, 102, 103, 104] [5, 5, 5, 5, 5]
                             [90, 89, 88, 87, 86] [4, 4, 4, 4, 4]))
     = [(90, 4), (89, 4), (88, 4), (87, 4), (86, 4)]
   \<and> lastFutureAsks (handle 1 AutoTrader_init
      (Order_book_update 1 1 [100, 101, 102, 103, 104] [5, 5, 5, 5, 5]
                             [90, 89, 88, 87, 86] [4, 4, 4, 4, 4]))
     = [(0, 0), (0, 0)]
   \<and> length (zip [100, 101, 102, 103, 104 :: int] [5, 5, 5, 5, 5 :: int]) = 5"
  using book_update_replaces_ladders
    [where ETF = 1 and s = AutoTrader_init and inst = 1 and sq = 1
       and ap = "[100, 101, 102, 103, 104]" and av = "[5, 5, 5, 5, 5]"
       and bp = "[90, 89, 88, 87, 86]" and bv = "[4, 4, 4, 4, 4]", OF refl]
  by (simp add: AutoTrader_init_def)

subsection \<open>C4: one order and one hedge for a BID-side opportunity\<close>

text \<open>
  C4: on every book update on which the scanner, run on the ladders as the update
  leaves them, reports a BID-side opportunity with price and volume other than 0, the
  handler makes exactly two outbound calls, in this order: one order insertion with
  side BID, the reported price, the reported volume and lifespan \<^verbatim>\<open>Lifespan.F\<close>
  (fill-or-kill), and one hedge order with side ASK, the reported future price and the
  same volume. The ids are the next two of the counter.
\<close>

theorem bid_opportunity_one_order_one_hedge:
  assumes "get_max_possible_trade (store_ladders ETF s inst ap av bp bv)
             = Inr (price, volume, Side_BID, fut_price)"
    and "price \<noteq> 0" and "volume \<noteq> 0"
  shows "on_order_book_update_message ETF s inst sq ap av bp bv =
           Inr ([send_insert_order (order_ids s) Side_BID price volume Lifespan_F,
                 send_hedge_order (order_ids s + 1) Side_ASK fut_price volume],
                (store_ladders ETF s inst ap av bp bv)
                  \<lparr>bid_price := price, bid_id := order_ids s, order_ids := order_ids s + 2\<rparr>)"
  using assms by (simp add: on_order_book_update_message_def place_orders_def)

text \<open>
  Witness for C4: the future bids are \<open>[(200,3)]\<close> and an ETF book with the ask
  \<open>(100,5)\<close> arrives; the scanner reports \<open>(100, 3, BID, 200)\<close>.
\<close>

theorem bid_opportunity_one_order_one_hedge_witness:
  "get_max_possible_trade
       (store_ladders 1 (AutoTrader_init\<lparr>lastFutureBids := [(200, 3)]\<rparr>) 1 [100] [5] [90] [5])
     = Inr (100, 3, Side_BID, 200)
   \<and> on_order_book_update_message 1 (AutoTrader_init\<lparr>lastFutureBids := [(200, 3)]\<rparr>)
        1 7 [100] [5] [90] [5]
     = Inr ([send_insert_order 1 Side_BID 100 3 Lifespan_F, send_hedge_order 2 Side_ASK 200 3],
            AutoTrader_init\<lparr>lastFutureBids := [(200, 3)], lastEtfBids := [(90, 5)],
              lastEtfAsks := [(100, 5)], bid_price := 100, bid_id := 1, order_ids := 3\<rparr>)"
proof -
  have h: "get_max_possible_trade
       (store_ladders 1 (AutoTrader_init\<lparr>lastFutureBids := [(200, 3)]\<rparr>) 1 [100] [5] [90] [5])
     = Inr (100, 3, Side_BID, 200)"
    by (simp add: store_ladders_def get_max_possible_trade_def AutoTrader_init_def)
  show ?thesis
    using h bid_opportunity_one_order_one_hedge [OF h, of 7]
    by (simp add: store_ladders_def AutoTrader_init_def)
qed

subsection \<open>C5: no opportunity at the best levels\<close>

text \<open>
  C5: whenever the four stored ladders have a best level, the best ETF ask price is at
  least the best future bid price and the best ETF bid price is at most the best future
  ask price, the scanner returns price 0, volume 0 and hedge price 0 (with side BID).
\<close>

theorem no_opportunity_returns_zero:
  assumes "lastEtfAsks s = ea # eas" and "lastFutureBids s = fb # fbs"
    and "lastEtfBids s = eb # ebs" and "lastFutureAsks s = fa # fas"
    and "fst ea \<ge> fst fb" and "fst eb \<le> fst fa"
  shows "get_max_possible_trade s = Inr (0, 0, Side_BID, 0)"
  using assms by (simp add: get_max_possible_trade_def)

text \<open>
  Witness for C5: ETF asks from 205, future bids from 200, ETF bids from 199, future
  asks from 201.
\<close>

theorem no_opportunity_returns_zero_witness:
  "get_max_possible_trade
     (AutoTrader_init\<lparr>lastEtfAsks := [(205, 5), (206, 1)], lastFutureBids := [(200, 3), (199, 2)],
        lastEtfBids := [(199, 4), (198, 4)], lastFutureAsks := [(201, 6), (202, 6)]\<rparr>)
   = Inr (0, 0, Side_BID, 0)"
  using no_opportunity_returns_zero
    [where s = "AutoTrader_init\<lparr>lastEtfAsks := [(205, 5), (206, 1)],
          lastFutureBids := [(200, 3), (199, 2)],
          lastEtfBids := [(199, 4), (198, 4)], lastFutureAsks := [(201, 6), (202, 6)]\<rparr>"
       and ea = "(205, 5)" and eas = "[(206, 1)]" and fb = "(200, 3)" and fbs = "[(199, 2)]"
       and eb = "(199, 4)" and ebs = "[(198, 4)]" and fa = "(201, 6)" and fas = "[(202, 6)]"]
  by simp

subsection \<open>C6: the accumulation over the cross product\<close>


subsection \<open>C7: a second status message with no remaining volume\<close>

text \<open>
  C7: for every order id and every state of the ledger, a second status message with
  remaining volume 0 for the id changes nothing. In every state a run of the trader
  reaches the whole state after two such messages, so the position, both resting slots
  and both working sets, is the state after one. The position and the two working
  sets are the same after two as after one in every state of the record whatsoever,
  and so are the slots in every state whose two slots do not both hold the id, or
  hold 0; the slots take distinct ids of the one counter, so every state of a run is
  of that kind.
\<close>

theorem status_zero_idempotent:
  "on_order_status_message (on_order_status_message (run ETF evs) client_order_id f 0 c)
          client_order_id f' 0 c'
        = on_order_status_message (run ETF evs) client_order_id f 0 c
   \<and> position (on_order_status_message (on_order_status_message s client_order_id f 0 c)
          client_order_id f' 0 c')
        = position (on_order_status_message s client_order_id f 0 c)
   \<and> bids (on_order_status_message (on_order_status_message s client_order_id f 0 c)
          client_order_id f' 0 c')
        = bids (on_order_status_message s client_order_id f 0 c)
   \<and> asks (on_order_status_message (on_order_status_message s client_order_id f 0 c)
          client_order_id f' 0 c')
        = asks (on_order_status_message s client_order_id f 0 c)
   \<and> (bid_id s \<noteq> ask_id s \<or> client_order_id \<noteq> bid_id s \<or> client_order_id = 0 \<longrightarrow>
        on_order_status_message (on_order_status_message s client_order_id f 0 c)
            client_order_id f' 0 c'
          = on_order_status_message s client_order_id f 0 c)"
proof (intro conjI impI)
  have "bid_id (run ETF evs) \<noteq> ask_id (run ETF evs) \<or> client_order_id \<noteq> bid_id (run ETF evs)
          \<or> client_order_id = 0"
    using run_slots_distinct [of ETF evs] by auto
  then show "on_order_status_message (on_order_status_message (run ETF evs) client_order_id f 0 c)
          client_order_id f' 0 c'
        = on_order_status_message (run ETF evs) client_order_id f 0 c"
    by (rule status_twice_same)
next
  show "position (on_order_status_message (on_order_status_message s client_order_id f 0 c)
          client_order_id f' 0 c')
        = position (on_order_status_message s client_order_id f 0 c)"
    by (simp add: status_frame)
next
  show "bids (on_order_status_message (on_order_status_message s client_order_id f 0 c)
          client_order_id f' 0 c')
        = bids (on_order_status_message s client_order_id f 0 c)"
    by (auto simp: on_order_status_message_def Let_def)
next
  show "asks (on_order_status_message (on_order_status_message s client_order_id f 0 c)
          client_order_id f' 0 c')
        = asks (on_order_status_message s client_order_id f 0 c)"
    by (auto simp: on_order_status_message_def Let_def)
next
  assume "bid_id s \<noteq> ask_id s \<or> client_order_id \<noteq> bid_id s \<or> client_order_id = 0"
  then show "on_order_status_message (on_order_status_message s client_order_id f 0 c)
          client_order_id f' 0 c'
        = on_order_status_message s client_order_id f 0 c"
    by (rule status_twice_same)
qed

text \<open>
  Witness for C7. The run is a future book and an ETF book that puts order 1 into the
  bid slot: the first status message for 1 clears the bid slot, and the second changes
  nothing. The other state has order 7 in the bid slot and order 8 in the ask slot,
  both in their working sets, and position 5: the first status message for 7 clears
  the bid slot and discards 7, and the second changes nothing.
\<close>

theorem status_zero_idempotent_witness:
  "bid_id (run 1 [Order_book_update 0 1 [300] [1] [200] [3],
                  Order_book_update 1 2 [100] [5] [90] [5]]) = 1
   \<and> bid_id (on_order_status_message
               (run 1 [Order_book_update 0 1 [300] [1] [200] [3],
                       Order_book_update 1 2 [100] [5] [90] [5]]) 1 3 0 0) = 0
   \<and> on_order_status_message
       (on_order_status_message
          (run 1 [Order_book_update 0 1 [300] [1] [200] [3],
                  Order_book_update 1 2 [100] [5] [90] [5]]) 1 3 0 0)
       1 3 0 0
     = on_order_status_message
          (run 1 [Order_book_update 0 1 [300] [1] [200] [3],
                  Order_book_update 1 2 [100] [5] [90] [5]]) 1 3 0 0
   \<and> (bid_id (AutoTrader_init\<lparr>bids := {7}, asks := {8}, ask_id := 8, bid_id := 7, position := 5\<rparr>)
      \<noteq> ask_id (AutoTrader_init\<lparr>bids := {7}, asks := {8}, ask_id := 8, bid_id := 7, position := 5\<rparr>))
   \<and> on_order_status_message
       (on_order_status_message
          (AutoTrader_init\<lparr>bids := {7}, asks := {8}, ask_id := 8, bid_id := 7, position := 5\<rparr>)
          7 3 0 0)
       7 3 0 0
     = on_order_status_message
          (AutoTrader_init\<lparr>bids := {7}, asks := {8}, ask_id := 8, bid_id := 7, position := 5\<rparr>)
          7 3 0 0
   \<and> on_order_status_message
          (AutoTrader_init\<lparr>bids := {7}, asks := {8}, ask_id := 8, bid_id := 7, position := 5\<rparr>)
          7 3 0 0
     = AutoTrader_init\<lparr>bids := {}, asks := {8}, ask_id := 8, bid_id := 0, position := 5\<rparr>"
  using status_zero_idempotent
    [where s = "AutoTrader_init\<lparr>bids := {7}, asks := {8}, ask_id := 8, bid_id := 7, position := 5\<rparr>"
       and client_order_id = 7 and f = 3 and c = 0 and f' = 3 and c' = 0 and ETF = 1 and evs = "[]"]
    status_zero_idempotent
    [where s = AutoTrader_init and client_order_id = 1 and f = 3 and c = 0 and f' = 3 and c' = 0
       and ETF = 1
       and evs = "[Order_book_update 0 1 [300] [1] [200] [3],
                   Order_book_update 1 2 [100] [5] [90] [5]]"]
  by (simp add: run_def handle_book_update store_ladders_def get_max_possible_trade_def
      place_orders_def on_order_status_message_def AutoTrader_init_def)

subsection \<open>C8: who changes the position and who clears the slots\<close>

text \<open>
  C8: in every state \<open>s\<close> a run reaches, the handlers for a book update, a status
  message, an error message, a hedge fill and trade ticks leave the position as it is,
  whether they return or raise, so only the fill handler changes it; and a resting
  slot that is not 0 is not 0 after the fill handler (which leaves both slots as they
  are), after the book-update handler (which puts a fresh id of the counter, at least 1,
  into a slot), after the hedge-fill handler and after the trade-ticks handler, so only
  the status and error handlers clear a slot.
\<close>

theorem position_and_slots_frame:
  assumes "s = run ETF evs"
  shows "position (handle ETF s (Order_book_update inst sq ap av bp bv)) = position s
       \<and> position (on_order_status_message s i f r c) = position s
       \<and> position (handle ETF s (Error_message i m)) = position s
       \<and> (\<forall>s'. on_error_message s i m = Inr s' \<longrightarrow> position s' = position s)
       \<and> position (on_hedge_filled_message s i p v) = position s
       \<and> position (on_trade_ticks_message s inst sq ap av bp bv) = position s
       \<and> bid_id (on_order_filled_message s i p v) = bid_id s
       \<and> ask_id (on_order_filled_message s i p v) = ask_id s
       \<and> (bid_id s \<noteq> 0 \<longrightarrow> bid_id (handle ETF s (Order_book_update inst sq ap av bp bv)) \<noteq> 0)
       \<and> (ask_id s \<noteq> 0 \<longrightarrow> ask_id (handle ETF s (Order_book_update inst sq ap av bp bv)) \<noteq> 0)
       \<and> on_hedge_filled_message s i p v = s
       \<and> on_trade_ticks_message s inst sq ap av bp bv = s"
proof -
  have inv: "ledger_inv s" using assms by (simp add: run_inv)
  have err: "\<forall>s'. on_error_message s i m = Inr s' \<longrightarrow> position s' = position s"
    using error_frame(1) [of ETF s i m] by (auto split: sum.splits)
  show ?thesis
    using book_update_slots [OF inv, of ETF inst sq ap av bp bv] err
    by (simp del: handle.simps add: book_update_frame status_frame error_frame filled_frame
        on_hedge_filled_message_def on_trade_ticks_message_def)
qed

text \<open>
  Witness for C8: the state after a future book and an ETF book that puts order 1 into
  the bid slot (position 0, bid slot 1, ask slot 0), with a second ETF book, a status
  message that is not final, an error message for an unknown id and a fill as the
  events.
\<close>

theorem position_and_slots_frame_witness:
  "position (handle 1
       (run 1 [Order_book_update 0 1 [300] [1] [200] [3], Order_book_update 1 2 [100] [5] [90] [5]])
       (Order_book_update 1 3 [101] [5] [90] [5])) = 0
   \<and> bid_id (handle 1
       (run 1 [Order_book_update 0 1 [300] [1] [200] [3], Order_book_update 1 2 [100] [5] [90] [5]])
       (Order_book_update 1 3 [101] [5] [90] [5])) = 3
   \<and> bid_id (run 1 [Order_book_update 0 1 [300] [1] [200] [3],
                     Order_book_update 1 2 [100] [5] [90] [5]]) = 1
   \<and> bid_id (on_order_filled_message
       (run 1 [Order_book_update 0 1 [300] [1] [200] [3], Order_book_update 1 2 [100] [5] [90] [5]])
       1 100 3) = 1
   \<and> position (handle 1
       (run 1 [Order_book_update 0 1 [300] [1] [200] [3], Order_book_update 1 2 [100] [5] [90] [5]])
       (Error_message 9 [0x6F, 0x6F, 0x70, 0x73])) = 0"
  using position_and_slots_frame
    [where ETF = 1
       and evs = "[Order_book_update 0 1 [300] [1] [200] [3], Order_book_update 1 2 [100] [5] [90] [5]]"
       and inst = 1 and sq = 3 and ap = "[101]" and av = "[5]" and bp = "[90]" and bv = "[5]"
       and i = 1 and f = 0 and r = 1 and c = 0 and m = "[0x6F, 0x6F, 0x70, 0x73]"
       and p = 100 and v = 3, OF refl]
  by (simp add: run_def handle_book_update store_ladders_def get_max_possible_trade_def
      place_orders_def AutoTrader_init_def on_order_filled_message_def on_error_message_def)

subsection \<open>C9: a fill for an unknown id\<close>

text \<open>
  C9: for every state and every order id that is in neither working set, the fill
  handler returns the state it was given, whatever the price and the volume: the
  position is unchanged, and the handler has no statement that raises.
\<close>

theorem unknown_fill_ignored:
  assumes "client_order_id \<notin> bids s" and "client_order_id \<notin> asks s"
  shows "on_order_filled_message s client_order_id price volume = s"
  using assms by (simp add: on_order_filled_message_def)

text \<open>Witness for C9: the fill of id 999 for 10 lots on a fresh trader.\<close>

theorem unknown_fill_ignored_witness:
  "999 \<notin> bids AutoTrader_init \<and> 999 \<notin> asks AutoTrader_init
   \<and> on_order_filled_message AutoTrader_init 999 100 10 = AutoTrader_init
   \<and> position (on_order_filled_message AutoTrader_init 999 100 10) = 0"
proof -
  have b: "999 \<notin> bids AutoTrader_init" and a: "999 \<notin> asks AutoTrader_init"
    by (simp_all add: AutoTrader_init_def)
  show ?thesis
    using a b unknown_fill_ignored [OF b a, of 100 10] by (simp add: AutoTrader_init_def)
qed

subsection \<open>C10: the working sets are never filled\<close>

text \<open>
  C10: no handler adds an id to \<open>bids\<close> or \<open>asks\<close>: whatever the state and the event,
  each working set after the handler is a subset of the one before. So after every
  run from the initial state both working sets are empty and the position is 0.
\<close>

theorem working_sets_stay_empty:
  "bids (handle ETF s e) \<subseteq> bids s \<and> asks (handle ETF s e) \<subseteq> asks s
   \<and> bids (run ETF evs) = {} \<and> asks (run ETF evs) = {} \<and> position (run ETF evs) = 0"
  using handle_working_sets [of ETF s e] run_inv [of ETF evs] by (simp add: ledger_inv_def)

text \<open>
  Witness for C10: a future book, an ETF book that sends order 1 on the bid side, and
  the fill of order 1 for 3 lots; the working sets are empty and the position is 0.
\<close>

theorem working_sets_stay_empty_witness:
  "bids (run 1 [Order_book_update 0 1 [300] [1] [200] [3], Order_book_update 1 2 [100] [5] [90] [5],
                Order_filled 1 100 3]) = {}
   \<and> asks (run 1 [Order_book_update 0 1 [300] [1] [200] [3], Order_book_update 1 2 [100] [5] [90] [5],
                Order_filled 1 100 3]) = {}
   \<and> position (run 1 [Order_book_update 0 1 [300] [1] [200] [3],
                Order_book_update 1 2 [100] [5] [90] [5], Order_filled 1 100 3]) = 0
   \<and> bid_id (run 1 [Order_book_update 0 1 [300] [1] [200] [3],
                Order_book_update 1 2 [100] [5] [90] [5], Order_filled 1 100 3]) = 1"
  using working_sets_stay_empty
    [where ETF = 1 and s = AutoTrader_init and e = "Order_filled 1 100 3"
       and evs = "[Order_book_update 0 1 [300] [1] [200] [3],
                   Order_book_update 1 2 [100] [5] [90] [5], Order_filled 1 100 3]"]
  by (simp add: run_def handle_book_update store_ladders_def get_max_possible_trade_def
      place_orders_def AutoTrader_init_def on_order_filled_message_def)

end
